theory Spec2Isabelle
  imports Complex_Main "HOL-Library.Multiset"
begin

section \<open>Python values and NumPy arrays\<close>

text \<open>
  A Python \<open>float\<close> is an IEEE double: a finite number, an infinity or NaN. Only
  comparisons are made on the scaling factors, and they are exact, so a finite double is
  represented by the real number it denotes.
\<close>

datatype pyfloat = Finite real | PosInf | NegInf | NaN

text \<open>The scalar arguments \<open>factor_h\<close> and \<open>factor_k\<close> are annotated \<open>float\<close>, but
  Python does not enforce annotations: any object can arrive.\<close>

datatype pyval = PyInt int | PyFloat pyfloat | PyBool bool | PyStr string | PyNone

datatype pytype = Ty_int | Ty_float | Ty_bool | Ty_str | Ty_NoneType

fun type_of :: "pyval \<Rightarrow> pytype" where
  "type_of (PyInt i) = Ty_int"
| "type_of (PyFloat f) = Ty_float"
| "type_of (PyBool b) = Ty_bool"
| "type_of (PyStr s) = Ty_str"
| "type_of PyNone = Ty_NoneType"

text \<open>\<open>isinstance(v, (float, int))\<close>: the class of \<open>v\<close> is \<open>float\<close>, \<open>int\<close> or a
  subclass of one of them; \<open>bool\<close> is a subclass of \<open>int\<close>.\<close>

fun subclass_of_float_or_int :: "pytype \<Rightarrow> bool" where
  "subclass_of_float_or_int Ty_float = True"
| "subclass_of_float_or_int Ty_int = True"
| "subclass_of_float_or_int Ty_bool = True"
| "subclass_of_float_or_int Ty_str = False"
| "subclass_of_float_or_int Ty_NoneType = False"

definition isinstance_float_int :: "pyval \<Rightarrow> bool" where
  "isinstance_float_int v = subclass_of_float_or_int (type_of v)"

text \<open>The comparison \<open>a <= b\<close> of two doubles: false as soon as one side is NaN.\<close>

fun float_le :: "pyfloat \<Rightarrow> pyfloat \<Rightarrow> bool" where
  "float_le NaN b = False"
| "float_le a NaN = False"
| "float_le NegInf b = True"
| "float_le a PosInf = True"
| "float_le (Finite a) (Finite b) = (a \<le> b)"
| "float_le PosInf b = False"
| "float_le a NegInf = False"

text \<open>The number an \<open>int\<close>, \<open>float\<close> or \<open>bool\<close> is compared as. Python compares an
  \<open>int\<close> with a \<open>float\<close> exactly, without rounding the \<open>int\<close> first.\<close>

fun number_of :: "pyval \<Rightarrow> pyfloat option" where
  "number_of (PyInt i) = Some (Finite (of_int i))"
| "number_of (PyFloat f) = Some f"
| "number_of (PyBool b) = Some (Finite (if b then 1 else 0))"
| "number_of (PyStr s) = None"
| "number_of PyNone = None"

text \<open>The chained comparison \<open>0.0 <= v <= 1.0\<close>. It is only evaluated on values that
  passed the \<open>isinstance\<close> test; on the others (where Python would raise) it is False.\<close>

definition between_0_1 :: "pyval \<Rightarrow> bool" where
  "between_0_1 v =
     (case number_of v of
        Some x \<Rightarrow> float_le (Finite 0) x \<and> float_le x (Finite 1)
      | None \<Rightarrow> False)"

text \<open>NumPy element types. \<open>np.issubdtype(d, np.integer)\<close> holds of the signed and
  unsigned integer types only (not of \<open>bool_\<close>).\<close>

datatype dtype =
    BoolT | Int8 | Int16 | Int32 | Int64 | UInt8 | UInt16 | UInt32 | UInt64
  | Float32 | Float64 | Complex128 | StrT | ObjectT

fun issubdtype_integer :: "dtype \<Rightarrow> bool" where
  "issubdtype_integer Int8 = True"
| "issubdtype_integer Int16 = True"
| "issubdtype_integer Int32 = True"
| "issubdtype_integer Int64 = True"
| "issubdtype_integer UInt8 = True"
| "issubdtype_integer UInt16 = True"
| "issubdtype_integer UInt32 = True"
| "issubdtype_integer UInt64 = True"
| "issubdtype_integer BoolT = False"
| "issubdtype_integer Float32 = False"
| "issubdtype_integer Float64 = False"
| "issubdtype_integer Complex128 = False"
| "issubdtype_integer StrT = False"
| "issubdtype_integer ObjectT = False"

text \<open>An \<open>ndarray\<close>: its shape (one length per axis), its element type and its elements
  in row-major order (what \<open>flatten\<close> gives).\<close>

record 'a ndarray =
  shape :: "nat list"
  dtype :: dtype
  items :: "'a list"

definition ndim :: "'a ndarray \<Rightarrow> nat" where
  "ndim a = length (shape a)"

subsection \<open>Exceptions and their messages\<close>

text \<open>
  A message built by an f-string is the list of its pieces: the literal text and the
  interpolated values, kept as values (the text Python prints for a float or a class is
  not modelled).
\<close>

datatype frag =
    Lit string
  | TypeV pytype
  | ObjV pyval
  | NumV nat
  | DtypeV dtype

type_synonym msg = "frag list"

text \<open>The exception classes that occur. \<open>OverflowError\<close> stands for the classes that are
  neither \<open>TypeError\<close> nor \<open>ValueError\<close> nor a subclass of them: NumPy raises it when a
  Python integer is too large for a double.\<close>

datatype exn = TypeError msg | ValueError msg | OverflowError msg

subsection \<open>Array-like inputs\<close>

text \<open>
  \<open>Q\<close>, \<open>y\<close> and \<open>classes\<close> are arbitrary Python objects, and the program does one thing
  with each of them: it hands it to \<open>np.asanyarray\<close> (\<open>Q\<close> with \<open>dtype=np.float64\<close>, the
  other two without a \<open>dtype\<close>). An input is therefore represented by what that one call
  does on it: \<open>Converts a\<close> when it returns an array with the shape and the elements of
  \<open>a\<close> (and, when no \<open>dtype\<close> is requested, the element type of \<open>a\<close>), \<open>Raises e\<close> when
  it raises \<open>e\<close>. An \<open>ndarray\<close> given as input converts to itself; the list
  \<open>['a', 'b']\<close>, converted without a \<open>dtype\<close>, to the string array of shape \<open>(2,)\<close>.
\<close>

datatype 'a arraylike = Converts "'a ndarray" | Raises exn

definition np_asanyarray :: "'a arraylike \<Rightarrow> dtype option \<Rightarrow> exn + 'a ndarray" where
  "np_asanyarray obj dt =
     (case obj of
        Raises e \<Rightarrow> Inl e
      | Converts a \<Rightarrow> Inr (case dt of None \<Rightarrow> a | Some d \<Rightarrow> a\<lparr>dtype := d\<rparr>))"

text \<open>\<open>len(a)\<close> on an array: the length of the first axis; a 0-dimensional array has
  none.\<close>

definition py_len :: "'a ndarray \<Rightarrow> exn + nat" where
  "py_len a =
     (case shape a of
        [] \<Rightarrow> Inl (TypeError [Lit ''len() of unsized object''])
      | n # ns \<Rightarrow> Inr n)"

text \<open>\<open>np.unique(a, return_inverse=True)\<close>: the elements are sorted, then one of each
  run of equal neighbours is kept; the second component gives, for each element of
  \<open>a\<close>, its position among the unique values.\<close>

definition np_unique :: "('a::linorder) ndarray \<Rightarrow> 'a ndarray \<times> nat list" where
  "np_unique a =
     (let u = remdups_adj (sort (items a)) in
      (\<lparr>shape = [length u], dtype = dtype a, items = u\<rparr>,
       map (\<lambda>v. length (takeWhile (\<lambda>w. w \<noteq> v) u)) (items a)))"

section \<open>The program\<close>

text \<open>\<open>get_nparrays\<close>: the handler of \<open>except (TypeError, ValueError) as e\<close> raises a
  \<open>TypeError\<close> whose message ends with the message of \<open>e\<close>; other exceptions pass.\<close>

fun reraise :: "exn \<Rightarrow> exn" where
  "reraise (TypeError m) =
     TypeError (Lit ''Inputs Q and y must be convertible to NumPy arrays. Error: '' # m)"
| "reraise (ValueError m) =
     TypeError (Lit ''Inputs Q and y must be convertible to NumPy arrays. Error: '' # m)"
| "reraise (OverflowError m) = OverflowError m"

definition get_nparrays ::
  "'q arraylike \<Rightarrow> 'a arraylike \<Rightarrow> exn + ('q ndarray \<times> 'a ndarray)" where
  "get_nparrays Q y =
     (case np_asanyarray Q (Some Float64) of
        Inl e \<Rightarrow> Inl (reraise e)
      | Inr Q_arr \<Rightarrow>
          (case np_asanyarray y None of
             Inl e \<Rightarrow> Inl (reraise e)
           | Inr y_arr \<Rightarrow> Inr (Q_arr, y_arr)))"

definition get_classes ::
  "('a::linorder) ndarray \<Rightarrow> 'a arraylike option \<Rightarrow> exn + ('a ndarray \<times> nat)" where
  "get_classes y classes =
     (case classes of
        Some c \<Rightarrow>
          (case np_asanyarray c None of
             Inl e \<Rightarrow> Inl e
           | Inr unique_labels \<Rightarrow>
               (case py_len unique_labels of
                  Inl e \<Rightarrow> Inl e
                | Inr n_classes \<Rightarrow> Inr (unique_labels, n_classes)))
      | None \<Rightarrow>
          (let unique_labels = fst (np_unique y) in
           (case py_len unique_labels of
              Inl e \<Rightarrow> Inl e
            | Inr n_classes \<Rightarrow> Inr (unique_labels, n_classes))))"

definition parcheck ::
  "'q arraylike \<Rightarrow> ('a::linorder) arraylike \<Rightarrow> pyval \<Rightarrow> pyval \<Rightarrow> 'a arraylike option
     \<Rightarrow> exn + unit" where
  "parcheck Q y factor_h factor_k classes =
     (if \<not> isinstance_float_int factor_h then
        Inl (TypeError [Lit ''factor_h must be a float, but got '',
                        TypeV (type_of factor_h), Lit ''.''])
      else if \<not> isinstance_float_int factor_k then
        Inl (TypeError [Lit ''factor_k must be a float, but got '',
                        TypeV (type_of factor_k), Lit ''.''])
      else if \<not> between_0_1 factor_h then
        Inl (ValueError [Lit ''factor_h must be in the range [0.0, 1.0], but got '',
                         ObjV factor_h, Lit ''.''])
      else if \<not> between_0_1 factor_k then
        Inl (ValueError [Lit ''factor_k must be in the range [0.0, 1.0], but got '',
                         ObjV factor_k, Lit ''.''])
      else
        (case get_nparrays Q y of
           Inl e \<Rightarrow> Inl e
         | Inr (Q_arr, y_arr) \<Rightarrow>
             if ndim Q_arr \<noteq> 2 then
               Inl (ValueError [Lit ''Q must be a 2D array, but has '',
                                NumV (ndim Q_arr), Lit '' dimensions.''])
             else if ndim y_arr \<noteq> 1 then
               Inl (ValueError [Lit ''y must be a 1D array, but has '',
                                NumV (ndim y_arr), Lit '' dimensions.''])
             else
               (let n_samples = shape Q_arr ! 0 in
                if n_samples \<noteq> shape y_arr ! 0 then
                  Inl (ValueError [Lit ''The number of samples in Q ('', NumV n_samples,
                                   Lit '') does not match the number of labels in y ('',
                                   NumV (shape y_arr ! 0), Lit '').''])
                else if \<not> issubdtype_integer (dtype y_arr) then
                  Inl (TypeError [Lit ''Labels in y must be integers, but found type '',
                                  DtypeV (dtype y_arr), Lit ''.''])
                else
                  (let n_features_q = shape Q_arr ! 1 in
                   (case get_classes y_arr classes of
                      Inl e \<Rightarrow> Inl e
                    | Inr (unique_labels, n_classes_y) \<Rightarrow>
                        if n_features_q \<noteq> n_classes_y then
                          Inl (ValueError
                                [Lit ''The number of columns in Q ('', NumV n_features_q,
                                 Lit '') must match the number of unique classes derived from y/classes ('',
                                 NumV n_classes_y, Lit '').''])
                        else Inr ())))))"

section \<open>The specification's vocabulary\<close>

text \<open>
  The definitions of this section follow the words of the specification, not the code;
  the theorems below compare them with the program.

  A scaling factor is a real number when it is a Python \<open>int\<close> or \<open>float\<close> (a \<open>bool\<close>
  is an \<open>int\<close>); \<open>real_number\<close> is the number it denotes, if it denotes one (NaN and the
  infinities denote none). It lies in the closed interval [0, 1] when that number does.
\<close>

definition is_int_or_float :: "pyval \<Rightarrow> bool" where
  "is_int_or_float v =
     (type_of v = Ty_int \<or> type_of v = Ty_float \<or> type_of v = Ty_bool)"

fun real_number :: "pyval \<Rightarrow> real option" where
  "real_number (PyInt i) = Some (of_int i)"
| "real_number (PyFloat (Finite r)) = Some r"
| "real_number (PyFloat PosInf) = None"
| "real_number (PyFloat NegInf) = None"
| "real_number (PyFloat NaN) = None"
| "real_number (PyBool b) = Some (if b then 1 else 0)"
| "real_number (PyStr s) = None"
| "real_number PyNone = None"

definition in_unit_interval :: "pyval \<Rightarrow> bool" where
  "in_unit_interval v =
     (case real_number v of Some r \<Rightarrow> 0 \<le> r \<and> r \<le> 1 | None \<Rightarrow> False)"

text \<open>The errors of the factor checks: a \<open>TypeError\<close> naming the parameter and the type
  of the value, a \<open>ValueError\<close> naming the parameter and the value.\<close>

definition factor_type_error :: "string \<Rightarrow> pyval \<Rightarrow> exn" where
  "factor_type_error name v =
     TypeError [Lit (name @ '' must be a float, but got ''), TypeV (type_of v), Lit ''.'']"

definition factor_range_error :: "string \<Rightarrow> pyval \<Rightarrow> exn" where
  "factor_range_error name v =
     ValueError [Lit (name @ '' must be in the range [0.0, 1.0], but got ''), ObjV v,
                 Lit ''.'']"

text \<open>
  The seven checks of the validation gateway, each one on its own: \<open>None\<close> when the
  input passes it, the error to raise otherwise. The checks on the arrays are made on
  the arrays the normalizer returned.
\<close>

definition check_factor_type :: "string \<Rightarrow> pyval \<Rightarrow> exn option" where
  "check_factor_type name v =
     (if is_int_or_float v then None else Some (factor_type_error name v))"

definition check_factor_range :: "string \<Rightarrow> pyval \<Rightarrow> exn option" where
  "check_factor_range name v =
     (if in_unit_interval v then None else Some (factor_range_error name v))"

definition check_normalize :: "'q arraylike \<Rightarrow> 'a arraylike \<Rightarrow> exn option" where
  "check_normalize Q y = (case get_nparrays Q y of Inl e \<Rightarrow> Some e | Inr arrs \<Rightarrow> None)"

definition ndim_Q_error :: "nat \<Rightarrow> exn" where
  "ndim_Q_error n =
     ValueError [Lit ''Q must be a 2D array, but has '', NumV n, Lit '' dimensions.'']"

definition ndim_y_error :: "nat \<Rightarrow> exn" where
  "ndim_y_error n =
     ValueError [Lit ''y must be a 1D array, but has '', NumV n, Lit '' dimensions.'']"

definition sample_count_error :: "nat \<Rightarrow> nat \<Rightarrow> exn" where
  "sample_count_error n_Q n_y =
     ValueError [Lit ''The number of samples in Q ('', NumV n_Q,
                 Lit '') does not match the number of labels in y ('', NumV n_y,
                 Lit '').'']"

definition label_type_error :: "dtype \<Rightarrow> exn" where
  "label_type_error d =
     TypeError [Lit ''Labels in y must be integers, but found type '', DtypeV d, Lit ''.'']"

definition class_count_error :: "nat \<Rightarrow> nat \<Rightarrow> exn" where
  "class_count_error n_columns n_classes =
     ValueError [Lit ''The number of columns in Q ('', NumV n_columns,
                 Lit '') must match the number of unique classes derived from y/classes ('',
                 NumV n_classes, Lit '').'']"

definition check_ndim_Q :: "'q ndarray \<Rightarrow> exn option" where
  "check_ndim_Q Q_arr =
     (if ndim Q_arr = 2 then None else Some (ndim_Q_error (ndim Q_arr)))"

definition check_ndim_y :: "'a ndarray \<Rightarrow> exn option" where
  "check_ndim_y y_arr =
     (if ndim y_arr = 1 then None else Some (ndim_y_error (ndim y_arr)))"

definition check_shape :: "'q ndarray \<Rightarrow> 'a ndarray \<Rightarrow> exn option" where
  "check_shape Q_arr y_arr =
     (if shape Q_arr ! 0 = shape y_arr ! 0 then None
      else Some (sample_count_error (shape Q_arr ! 0) (shape y_arr ! 0)))"

definition check_label_type :: "'a ndarray \<Rightarrow> exn option" where
  "check_label_type y_arr =
     (if issubdtype_integer (dtype y_arr) then None
      else Some (label_type_error (dtype y_arr)))"

definition check_classes ::
  "'q ndarray \<Rightarrow> ('a::linorder) ndarray \<Rightarrow> 'a arraylike option \<Rightarrow> exn option" where
  "check_classes Q_arr y_arr classes =
     (case get_classes y_arr classes of
        Inl e \<Rightarrow> Some e
      | Inr (labels, n_classes) \<Rightarrow>
          if shape Q_arr ! 1 = n_classes then None
          else Some (class_count_error (shape Q_arr ! 1) n_classes))"

text \<open>The checks in the order of the specification, and the outcome it prescribes: the
  error of the first check that fails, nothing when every check passes.\<close>

definition array_checks ::
  "'q arraylike \<Rightarrow> ('a::linorder) arraylike \<Rightarrow> 'a arraylike option \<Rightarrow> exn option list" where
  "array_checks Q y classes =
     check_normalize Q y #
     (case get_nparrays Q y of
        Inl e \<Rightarrow> []
      | Inr (Q_arr, y_arr) \<Rightarrow>
          [check_ndim_Q Q_arr, check_ndim_y y_arr, check_shape Q_arr y_arr,
           check_label_type y_arr, check_classes Q_arr y_arr classes])"

definition checks_in_order ::
  "'q arraylike \<Rightarrow> ('a::linorder) arraylike \<Rightarrow> pyval \<Rightarrow> pyval \<Rightarrow> 'a arraylike option
     \<Rightarrow> exn option list" where
  "checks_in_order Q y factor_h factor_k classes =
     [check_factor_type ''factor_h'' factor_h, check_factor_type ''factor_k'' factor_k,
      check_factor_range ''factor_h'' factor_h, check_factor_range ''factor_k'' factor_k]
     @ array_checks Q y classes"

fun first_error :: "exn option list \<Rightarrow> exn + unit" where
  "first_error [] = Inr ()"
| "first_error (None # cs) = first_error cs"
| "first_error (Some e # cs) = Inl e"

text \<open>An input can be interpreted as a numeric array when its conversion returns an
  array of numbers (not of strings or of arbitrary objects).\<close>

fun numeric_dtype :: "dtype \<Rightarrow> bool" where
  "numeric_dtype StrT = False"
| "numeric_dtype ObjectT = False"
| "numeric_dtype d = True"

fun interpretable_as_numeric :: "'a arraylike \<Rightarrow> bool" where
  "interpretable_as_numeric (Converts a) = numeric_dtype (dtype a)"
| "interpretable_as_numeric (Raises e) = False"

fun raises_TypeError :: "exn + 'b \<Rightarrow> bool" where
  "raises_TypeError (Inl (TypeError m)) = True"
| "raises_TypeError r = False"


section \<open>Auxiliary facts\<close>

lemma isinstance_iff: "isinstance_float_int v = is_int_or_float v"
  by (cases v) (simp_all add: isinstance_float_int_def is_int_or_float_def)

lemma between_iff: "between_0_1 v = in_unit_interval v"
proof (cases v)
  case (PyFloat f)
  then show ?thesis by (cases f) (simp_all add: between_0_1_def in_unit_interval_def)
qed (simp_all add: between_0_1_def in_unit_interval_def)

lemma in_unit_is_number: "in_unit_interval v \<Longrightarrow> is_int_or_float v"
  by (cases v) (simp_all add: in_unit_interval_def is_int_or_float_def)

lemma sorted_remdups_adj_strict:
  "sorted xs \<Longrightarrow> sorted_wrt (<) (remdups_adj (xs::('a::linorder) list))"
  by (induction xs rule: remdups_adj.induct) (auto simp: order_less_le)

lemma length_unique: "length (remdups_adj (sort xs)) = card (set (xs::('a::linorder) list))"
proof -
  have "distinct (remdups_adj (sort xs))"
    using sorted_remdups_adj_strict [of "sort xs"] by (simp add: strict_sorted_iff)
  then have "card (set (remdups_adj (sort xs))) = length (remdups_adj (sort xs))"
    by (rule distinct_card)
  then show ?thesis by simp
qed

lemma get_classes_None:
  "get_classes y None = Inr (fst (np_unique y), card (set (items y)))"
  by (simp add: get_classes_def np_unique_def py_len_def Let_def length_unique)

lemma get_classes_Some:
  "shape c = n # ns \<Longrightarrow> get_classes y (Some (Converts c)) = Inr (c, n)"
  by (simp add: get_classes_def np_asanyarray_def py_len_def)

lemmas check_defs =
  check_factor_type_def check_factor_range_def check_normalize_def check_ndim_Q_def
  check_ndim_y_def check_shape_def check_label_type_def check_classes_def
  factor_type_error_def factor_range_error_def ndim_Q_error_def ndim_y_error_def
  sample_count_error_def label_type_error_def class_count_error_def

lemma parcheck_first_error:
  "parcheck Q y factor_h factor_k classes =
     first_error (checks_in_order Q y factor_h factor_k classes)"
  by (simp add: parcheck_def checks_in_order_def array_checks_def check_defs
        isinstance_iff between_iff Let_def split: sum.splits prod.splits)

lemma parcheck_valid_factors:
  "in_unit_interval factor_h \<Longrightarrow> in_unit_interval factor_k \<Longrightarrow>
   parcheck Q y factor_h factor_k classes = first_error (array_checks Q y classes)"
  by (simp add: parcheck_first_error checks_in_order_def check_factor_type_def
        check_factor_range_def in_unit_is_number)

lemma get_nparrays_Converts:
  "get_nparrays (Converts a) (Converts b) = Inr (a\<lparr>dtype := Float64\<rparr>, b)"
  by (simp add: get_nparrays_def np_asanyarray_def)

lemma array_checks_Converts:
  "array_checks (Converts a) (Converts b) classes =
     [None, check_ndim_Q a, check_ndim_y b, check_shape a b, check_label_type b,
      check_classes a b classes]"
  by (simp add: array_checks_def get_nparrays_Converts check_defs ndim_def
        split: sum.splits prod.splits)

lemma parcheck_arrays:
  "in_unit_interval factor_h \<Longrightarrow> in_unit_interval factor_k \<Longrightarrow>
   parcheck (Converts a) (Converts b) factor_h factor_k classes =
     first_error [check_ndim_Q a, check_ndim_y b, check_shape a b, check_label_type b,
                  check_classes a b classes]"
  by (simp add: parcheck_valid_factors array_checks_Converts)


section \<open>The claims\<close>

text \<open>
  C1. For all \<open>factor_h\<close> and \<open>factor_k\<close> in the closed interval [0, 1], and every
  well-formed pair \<open>(Q, y)\<close>, where \<open>Q\<close> is a 2-dimensional array of shape \<open>(M, N)\<close>,
  \<open>y\<close> a 1-dimensional integral array of length \<open>M\<close> and \<open>N\<close> the number of unique
  labels of \<open>y\<close>, \<open>parcheck\<close> without \<open>classes\<close> returns and raises nothing.
\<close>

theorem parcheck_accepts_well_formed:
  assumes "in_unit_interval factor_h" and "in_unit_interval factor_k"
    and "shape Q_arr = [M, N]" and "shape y_arr = [M]"
    and "issubdtype_integer (dtype y_arr)"
    and "N = card (set (items y_arr))"
  shows "parcheck (Converts Q_arr) (Converts y_arr) factor_h factor_k None = Inr ()"
  using assms
  by (simp add: parcheck_arrays check_defs ndim_def get_classes_None)

theorem parcheck_accepts_well_formed_witness:
  "in_unit_interval (PyFloat (Finite (1/2))) \<and> in_unit_interval (PyInt 1) \<and>
   3 = card (set [0, 1, 2, 1::int]) \<and>
   parcheck (Converts \<lparr>shape = [4, 3], dtype = Float64, items = replicate 12 (0::real)\<rparr>)
     (Converts \<lparr>shape = [4], dtype = Int64, items = [0, 1, 2, 1::int]\<rparr>)
     (PyFloat (Finite (1/2))) (PyInt 1) None = Inr ()"
proof -
  have h: "in_unit_interval (PyFloat (Finite (1/2)))" and k: "in_unit_interval (PyInt 1)"
    by (simp_all add: in_unit_interval_def)
  have n: "3 = card (set [0, 1, 2, 1::int])"
    by (simp add: card_insert_if)
  have r: "parcheck (Converts \<lparr>shape = [4, 3], dtype = Float64, items = replicate 12 (0::real)\<rparr>)
     (Converts \<lparr>shape = [4], dtype = Int64, items = [0, 1, 2, 1::int]\<rparr>)
     (PyFloat (Finite (1/2))) (PyInt 1) None = Inr ()"
    using parcheck_accepts_well_formed
      [of "PyFloat (Finite (1/2))" "PyInt 1"
          "\<lparr>shape = [4, 3], dtype = Float64, items = replicate 12 (0::real)\<rparr>" 4 3
          "\<lparr>shape = [4], dtype = Int64, items = [0, 1, 2, 1::int]\<rparr>", OF h k]
    by (simp add: card_insert_if)
  show ?thesis by (intro conjI h k n r)
qed

text \<open>
  C2. \<open>parcheck\<close> makes its checks in the fixed order: the types of the factors, their
  ranges, the normalization of the arrays, the numbers of axes, the agreement of the
  sample counts, the type of the labels, the class count. On an input that violates
  several checks the error raised is that of the first violated check in this order, and
  it is the only one: the result of \<open>parcheck\<close> is \<open>first_error\<close> of the checks in order.
\<close>

theorem parcheck_check_order:
  "parcheck Q y factor_h factor_k classes =
     first_error (checks_in_order Q y factor_h factor_k classes)"
  by (rule parcheck_first_error)

text \<open>The example of the claim: \<open>factor_h = 1.5\<close> and a \<open>Q\<close> that does not convert give
  the \<open>ValueError\<close> of \<open>factor_h\<close>, not the \<open>TypeError\<close> of the conversion.\<close>

theorem parcheck_check_order_witness:
  "parcheck (Raises (ValueError [Lit ''could not convert string to float'']))
     (Converts \<lparr>shape = [2], dtype = Int64, items = [0, 1::int]\<rparr>)
     (PyFloat (Finite (3/2))) (PyFloat (Finite (1/2))) None
   = Inl (ValueError [Lit ''factor_h must be in the range [0.0, 1.0], but got '',
                      ObjV (PyFloat (Finite (3/2))), Lit ''.''])"
  using parcheck_check_order
    [of "Raises (ValueError [Lit ''could not convert string to float''])"
        "Converts \<lparr>shape = [2], dtype = Int64, items = [0, 1::int]\<rparr>"
        "PyFloat (Finite (3/2))" "PyFloat (Finite (1/2))" None]
  by (simp add: checks_in_order_def check_defs is_int_or_float_def in_unit_interval_def)

text \<open>
  C3. In \<open>parcheck\<close>, a scaling factor that is not a real number (an \<open>int\<close> or a
  \<open>float\<close>) causes a \<open>TypeError\<close> naming the parameter and the type of its value; one
  that is an \<open>int\<close> or a \<open>float\<close> outside [0.0, 1.0] causes a \<open>ValueError\<close> naming the
  parameter and its value; factors that are real numbers within [0.0, 1.0], endpoints
  included, pass both checks, and the result is that of the checks on the arrays. The
  checks are made in the order \<open>factor_h\<close>, \<open>factor_k\<close>, types before ranges, so each
  error is stated for the first factor check that fails.
\<close>

theorem factor_checks:
  "(\<not> is_int_or_float factor_h \<longrightarrow>
      parcheck Q y factor_h factor_k classes = Inl (factor_type_error ''factor_h'' factor_h))
   \<and> (is_int_or_float factor_h \<and> \<not> is_int_or_float factor_k \<longrightarrow>
      parcheck Q y factor_h factor_k classes = Inl (factor_type_error ''factor_k'' factor_k))
   \<and> (is_int_or_float factor_h \<and> is_int_or_float factor_k \<and> \<not> in_unit_interval factor_h \<longrightarrow>
      parcheck Q y factor_h factor_k classes = Inl (factor_range_error ''factor_h'' factor_h))
   \<and> (in_unit_interval factor_h \<and> is_int_or_float factor_k \<and> \<not> in_unit_interval factor_k \<longrightarrow>
      parcheck Q y factor_h factor_k classes = Inl (factor_range_error ''factor_k'' factor_k))
   \<and> (in_unit_interval factor_h \<and> in_unit_interval factor_k \<longrightarrow>
      parcheck Q y factor_h factor_k classes = first_error (array_checks Q y classes))"
proof (intro conjI impI)
  assume "\<not> is_int_or_float factor_h"
  then show "parcheck Q y factor_h factor_k classes
             = Inl (factor_type_error ''factor_h'' factor_h)"
    by (simp add: parcheck_first_error checks_in_order_def check_factor_type_def)
next
  assume "is_int_or_float factor_h \<and> \<not> is_int_or_float factor_k"
  then show "parcheck Q y factor_h factor_k classes
             = Inl (factor_type_error ''factor_k'' factor_k)"
    by (simp add: parcheck_first_error checks_in_order_def check_factor_type_def)
next
  assume "is_int_or_float factor_h \<and> is_int_or_float factor_k \<and> \<not> in_unit_interval factor_h"
  then show "parcheck Q y factor_h factor_k classes
             = Inl (factor_range_error ''factor_h'' factor_h)"
    by (simp add: parcheck_first_error checks_in_order_def check_factor_type_def
          check_factor_range_def)
next
  assume "in_unit_interval factor_h \<and> is_int_or_float factor_k \<and> \<not> in_unit_interval factor_k"
  then show "parcheck Q y factor_h factor_k classes
             = Inl (factor_range_error ''factor_k'' factor_k)"
    by (simp add: parcheck_first_error checks_in_order_def check_factor_type_def
          check_factor_range_def in_unit_is_number)
next
  assume "in_unit_interval factor_h \<and> in_unit_interval factor_k"
  then show "parcheck Q y factor_h factor_k classes = first_error (array_checks Q y classes)"
    by (simp add: parcheck_valid_factors)
qed

text \<open>One input for each case: \<open>factor_h = 'a'\<close>; \<open>factor_k = None\<close>;
  \<open>factor_h = -0.1\<close>; \<open>factor_k = 1.5\<close>; and the endpoints \<open>0.0\<close> and \<open>1.0\<close> with a
  \<open>Q\<close> of shape \<open>(2, 2)\<close> and \<open>y = [0, 1]\<close>.\<close>

theorem factor_checks_witness:
  "parcheck (Converts \<lparr>shape = [2, 2], dtype = Float64, items = [1, 0, 0, 1::real]\<rparr>)
      (Converts \<lparr>shape = [2], dtype = Int64, items = [0, 1::int]\<rparr>)
      (PyStr ''a'') (PyFloat (Finite (1/2))) None
    = Inl (TypeError [Lit ''factor_h must be a float, but got '', TypeV Ty_str, Lit ''.''])
   \<and> parcheck (Converts \<lparr>shape = [2, 2], dtype = Float64, items = [1, 0, 0, 1::real]\<rparr>)
      (Converts \<lparr>shape = [2], dtype = Int64, items = [0, 1::int]\<rparr>)
      (PyFloat (Finite (1/2))) PyNone None
    = Inl (TypeError [Lit ''factor_k must be a float, but got '', TypeV Ty_NoneType,
                      Lit ''.''])
   \<and> parcheck (Converts \<lparr>shape = [2, 2], dtype = Float64, items = [1, 0, 0, 1::real]\<rparr>)
      (Converts \<lparr>shape = [2], dtype = Int64, items = [0, 1::int]\<rparr>)
      (PyFloat (Finite (- 1/10))) (PyFloat (Finite (1/2))) None
    = Inl (ValueError [Lit ''factor_h must be in the range [0.0, 1.0], but got '',
                       ObjV (PyFloat (Finite (- 1/10))), Lit ''.''])
   \<and> parcheck (Converts \<lparr>shape = [2, 2], dtype = Float64, items = [1, 0, 0, 1::real]\<rparr>)
      (Converts \<lparr>shape = [2], dtype = Int64, items = [0, 1::int]\<rparr>)
      (PyFloat (Finite (1/2))) (PyFloat (Finite (3/2))) None
    = Inl (ValueError [Lit ''factor_k must be in the range [0.0, 1.0], but got '',
                       ObjV (PyFloat (Finite (3/2))), Lit ''.''])
   \<and> parcheck (Converts \<lparr>shape = [2, 2], dtype = Float64, items = [1, 0, 0, 1::real]\<rparr>)
      (Converts \<lparr>shape = [2], dtype = Int64, items = [0, 1::int]\<rparr>)
      (PyFloat (Finite 0)) (PyFloat (Finite 1)) None
    = Inr ()"
proof -
  let ?Q = "Converts \<lparr>shape = [2, 2], dtype = Float64, items = [1, 0, 0, 1::real]\<rparr>"
  let ?y = "Converts \<lparr>shape = [2], dtype = Int64, items = [0, 1::int]\<rparr>"
  have c: "card (set [0, 1::int]) = 2" by (simp add: card_insert_if)
  have 1: "parcheck ?Q ?y (PyStr ''a'') (PyFloat (Finite (1/2))) None
    = Inl (TypeError [Lit ''factor_h must be a float, but got '', TypeV Ty_str, Lit ''.''])"
    using factor_checks [of "PyStr ''a''" ?Q ?y "PyFloat (Finite (1/2))" None]
    by (simp add: is_int_or_float_def factor_type_error_def)
  have 2: "parcheck ?Q ?y (PyFloat (Finite (1/2))) PyNone None
    = Inl (TypeError [Lit ''factor_k must be a float, but got '', TypeV Ty_NoneType,
                      Lit ''.''])"
    using factor_checks [of "PyFloat (Finite (1/2))" ?Q ?y PyNone None]
    by (simp add: is_int_or_float_def factor_type_error_def)
  have 3: "parcheck ?Q ?y (PyFloat (Finite (- 1/10))) (PyFloat (Finite (1/2))) None
    = Inl (ValueError [Lit ''factor_h must be in the range [0.0, 1.0], but got '',
                       ObjV (PyFloat (Finite (- 1/10))), Lit ''.''])"
    using factor_checks [of "PyFloat (Finite (- 1/10))" ?Q ?y "PyFloat (Finite (1/2))" None]
    by (simp add: is_int_or_float_def in_unit_interval_def factor_range_error_def)
  have 4: "parcheck ?Q ?y (PyFloat (Finite (1/2))) (PyFloat (Finite (3/2))) None
    = Inl (ValueError [Lit ''factor_k must be in the range [0.0, 1.0], but got '',
                       ObjV (PyFloat (Finite (3/2))), Lit ''.''])"
    using factor_checks [of "PyFloat (Finite (1/2))" ?Q ?y "PyFloat (Finite (3/2))" None]
    by (simp add: is_int_or_float_def in_unit_interval_def factor_range_error_def)
  have 5: "parcheck ?Q ?y (PyFloat (Finite 0)) (PyFloat (Finite 1)) None = Inr ()"
    using factor_checks [of "PyFloat (Finite 0)" ?Q ?y "PyFloat (Finite 1)" None]
    by (simp add: in_unit_interval_def array_checks_Converts check_defs ndim_def
          get_classes_None c)
  show ?thesis by (intro conjI 1 2 3 4 5)
qed

text \<open>
  C4, as stated: \<open>get_nparrays\<close> raises a \<open>TypeError\<close> whenever \<open>Q\<close> or \<open>y\<close> cannot be
  interpreted as a numeric array, for example when it contains non-numeric data. This
  fails for \<open>y\<close>, which is converted without a requested element type: the list of
  strings \<open>['a', 'b']\<close> converts to a string array, and with \<open>Q = [[1.0, 2.0]]\<close> the
  function returns both arrays.
\<close>

theorem get_nparrays_string_labels:
  "\<not> interpretable_as_numeric
        (Converts \<lparr>shape = [2], dtype = StrT, items = [''a'', ''b'']\<rparr>)
   \<and> \<not> raises_TypeError
        (get_nparrays
           (Converts \<lparr>shape = [1, 2], dtype = Float64, items = [1, 2::real]\<rparr>)
           (Converts \<lparr>shape = [2], dtype = StrT, items = [''a'', ''b'']\<rparr>))
   \<and> get_nparrays
        (Converts \<lparr>shape = [1, 2], dtype = Float64, items = [1, 2::real]\<rparr>)
        (Converts \<lparr>shape = [2], dtype = StrT, items = [''a'', ''b'']\<rparr>)
      = Inr (\<lparr>shape = [1, 2], dtype = Float64, items = [1, 2::real]\<rparr>,
             \<lparr>shape = [2], dtype = StrT, items = [''a'', ''b'']\<rparr>)"
  by (simp add: get_nparrays_def np_asanyarray_def)

text \<open>
  C4, amended: \<open>get_nparrays\<close> raises a \<open>TypeError\<close> whose message is its own text
  followed by the message of the conversion failure whenever the conversion of \<open>Q\<close> to
  \<open>float64\<close> raises a \<open>TypeError\<close> or a \<open>ValueError\<close>, or that conversion succeeds and
  the conversion of \<open>y\<close> raises one of the two. When both conversions succeed, whatever
  the elements of \<open>y\<close> are, it returns \<open>Q\<close> as a \<open>float64\<close> array and \<open>y\<close> as converted,
  with the element type the conversion found.
\<close>

theorem get_nparrays_wraps_conversion_errors:
  "(e = TypeError m \<or> e = ValueError m \<longrightarrow>
      get_nparrays (Raises e :: 'q arraylike) (y :: 'a arraylike)
        = Inl (TypeError (Lit ''Inputs Q and y must be convertible to NumPy arrays. Error: '' # m))
      \<and> get_nparrays (Converts (a :: 'q ndarray)) (Raises e :: 'a arraylike)
        = Inl (TypeError (Lit ''Inputs Q and y must be convertible to NumPy arrays. Error: '' # m)))
   \<and> (\<exists>Q_arr. get_nparrays (Converts a) (Converts (b :: 'a ndarray)) = Inr (Q_arr, b)
         \<and> dtype Q_arr = Float64 \<and> shape Q_arr = shape a \<and> items Q_arr = items a)"
  by (auto simp add: get_nparrays_def np_asanyarray_def)

text \<open>A ragged \<open>Q\<close>, on which the conversion raises a \<open>ValueError\<close>, and a \<open>y\<close> on which
  it raises a \<open>ValueError\<close> after \<open>Q\<close> converted.\<close>

theorem get_nparrays_wraps_conversion_errors_witness:
  "get_nparrays (Raises (ValueError [Lit ''setting an array element with a sequence.'']))
      (Converts \<lparr>shape = [2], dtype = Int64, items = [0, 1::int]\<rparr>)
    = (Inl (TypeError [Lit ''Inputs Q and y must be convertible to NumPy arrays. Error: '',
                       Lit ''setting an array element with a sequence.''])
        :: exn + (real ndarray \<times> int ndarray))
   \<and> get_nparrays (Converts \<lparr>shape = [1, 2], dtype = Float64, items = [1, 2::real]\<rparr>)
      (Raises (ValueError [Lit ''setting an array element with a sequence.'']))
    = (Inl (TypeError [Lit ''Inputs Q and y must be convertible to NumPy arrays. Error: '',
                       Lit ''setting an array element with a sequence.''])
        :: exn + (real ndarray \<times> int ndarray))"
  using get_nparrays_wraps_conversion_errors
    [of "ValueError [Lit ''setting an array element with a sequence.'']"
        "[Lit ''setting an array element with a sequence.'']"
        "Converts \<lparr>shape = [2], dtype = Int64, items = [0, 1::int]\<rparr>"
        "\<lparr>shape = [1, 2], dtype = Float64, items = [1, 2::real]\<rparr>"
        "\<lparr>shape = [2], dtype = Int64, items = [0, 1::int]\<rparr>"]
  by simp

text \<open>
  C5. When an explicit class set is supplied (an array with a first axis of length
  \<open>n\<close>), \<open>get_classes\<close> returns that set and \<open>n\<close> as the class count, whatever \<open>y\<close>
  holds, and \<open>parcheck\<close> makes no membership check: when the other checks pass and \<open>Q\<close>
  has \<open>n\<close> columns it succeeds, whether the labels of \<open>y\<close> lie in \<open>classes\<close> or not.
\<close>

theorem explicit_classes_are_authoritative:
  assumes "shape c = n # ns"
  shows "get_classes y_any (Some (Converts c)) = Inr (c, n)
    \<and> (in_unit_interval factor_h \<and> in_unit_interval factor_k
        \<and> shape Q_arr = [M, n] \<and> shape y_arr = [M] \<and> issubdtype_integer (dtype y_arr)
       \<longrightarrow> parcheck (Converts Q_arr) (Converts y_arr) factor_h factor_k
              (Some (Converts c)) = Inr ())"
  using assms
  by (simp add: get_classes_Some parcheck_arrays check_defs ndim_def)

text \<open>\<open>classes = [0, 1, 2, 3]\<close>, a \<open>Q\<close> of shape \<open>(4, 4)\<close> and \<open>y = [7, 8, 9, 7]\<close>, none
  of whose labels is a listed class.\<close>

theorem explicit_classes_are_authoritative_witness:
  "set [7, 8, 9, 7::int] \<inter> set [0, 1, 2, 3] = {}
   \<and> get_classes \<lparr>shape = [4], dtype = Int64, items = [7, 8, 9, 7::int]\<rparr>
        (Some (Converts \<lparr>shape = [4], dtype = Int64, items = [0, 1, 2, 3::int]\<rparr>))
      = Inr (\<lparr>shape = [4], dtype = Int64, items = [0, 1, 2, 3::int]\<rparr>, 4)
   \<and> parcheck
        (Converts \<lparr>shape = [4, 4], dtype = Float64, items = replicate 16 (0::real)\<rparr>)
        (Converts \<lparr>shape = [4], dtype = Int64, items = [7, 8, 9, 7::int]\<rparr>)
        (PyFloat (Finite (1/2))) (PyFloat (Finite (1/2)))
        (Some (Converts \<lparr>shape = [4], dtype = Int64, items = [0, 1, 2, 3::int]\<rparr>))
      = Inr ()"
  using explicit_classes_are_authoritative
    [of "\<lparr>shape = [4], dtype = Int64, items = [0, 1, 2, 3::int]\<rparr>" 4 "[]"
        "\<lparr>shape = [4], dtype = Int64, items = [7, 8, 9, 7::int]\<rparr>"
        "PyFloat (Finite (1/2))" "PyFloat (Finite (1/2))"
        "\<lparr>shape = [4, 4], dtype = Float64, items = replicate 16 (0::real)\<rparr>" 4
        "\<lparr>shape = [4], dtype = Int64, items = [7, 8, 9, 7::int]\<rparr>"]
  by (simp add: in_unit_interval_def)

text \<open>
  C6. Without an explicit class set the class count is the number of distinct values
  of \<open>y\<close>, and, the earlier checks passed, \<open>parcheck\<close> raises the \<open>ValueError\<close> that
  reports the number of columns of \<open>Q\<close> and the class count exactly when the two differ;
  with an explicit class set the count compared is the length of that set.
\<close>

theorem inferred_class_count:
  "get_classes y_arr None = Inr (fst (np_unique y_arr), card (set (items y_arr)))
   \<and> (in_unit_interval factor_h \<and> in_unit_interval factor_k
       \<and> shape Q_arr = [M, N] \<and> shape y_arr = [M] \<and> issubdtype_integer (dtype y_arr)
      \<longrightarrow> parcheck (Converts Q_arr) (Converts y_arr) factor_h factor_k None
            = (if N = card (set (items y_arr)) then Inr ()
               else Inl (class_count_error N (card (set (items y_arr)))))
        \<and> (shape c = k # ks \<longrightarrow>
             parcheck (Converts Q_arr) (Converts y_arr) factor_h factor_k (Some (Converts c))
             = (if N = k then Inr () else Inl (class_count_error N k))))"
  by (simp add: get_classes_None get_classes_Some parcheck_arrays check_defs ndim_def)

text \<open>The example of the claim: \<open>Q\<close> of shape \<open>(4, 3)\<close> and \<open>y = [0, 1, 2, 1]\<close> pass, and
  with \<open>classes = [0, 1, 2, 3]\<close> the same inputs raise the \<open>ValueError\<close> for 3 against 4.\<close>

theorem inferred_class_count_witness:
  "get_classes \<lparr>shape = [4], dtype = Int64, items = [0, 1, 2, 1::int]\<rparr> None
      = Inr (\<lparr>shape = [3], dtype = Int64, items = [0, 1, 2]\<rparr>, 3)
   \<and> parcheck
        (Converts \<lparr>shape = [4, 3], dtype = Float64, items = replicate 12 (0::real)\<rparr>)
        (Converts \<lparr>shape = [4], dtype = Int64, items = [0, 1, 2, 1::int]\<rparr>)
        (PyFloat (Finite (1/2))) (PyFloat (Finite (1/2))) None
      = Inr ()
   \<and> parcheck
        (Converts \<lparr>shape = [4, 3], dtype = Float64, items = replicate 12 (0::real)\<rparr>)
        (Converts \<lparr>shape = [4], dtype = Int64, items = [0, 1, 2, 1::int]\<rparr>)
        (PyFloat (Finite (1/2))) (PyFloat (Finite (1/2)))
        (Some (Converts \<lparr>shape = [4], dtype = Int64, items = [0, 1, 2, 3::int]\<rparr>))
      = Inl (ValueError
              [Lit ''The number of columns in Q ('', NumV 3,
               Lit '') must match the number of unique classes derived from y/classes ('',
               NumV 4, Lit '').''])"
proof -
  have u: "fst (np_unique \<lparr>shape = [4], dtype = Int64, items = [0, 1, 2, 1::int]\<rparr>)
           = \<lparr>shape = [3], dtype = Int64, items = [0, 1, 2]\<rparr>"
    by (simp add: np_unique_def Let_def)
  show ?thesis
    using inferred_class_count
      [of "\<lparr>shape = [4], dtype = Int64, items = [0, 1, 2, 1::int]\<rparr>"
          "PyFloat (Finite (1/2))" "PyFloat (Finite (1/2))"
          "\<lparr>shape = [4, 3], dtype = Float64, items = replicate 12 (0::real)\<rparr>" 4 3
          "\<lparr>shape = [4], dtype = Int64, items = [0, 1, 2, 3::int]\<rparr>" 4 "[]"]
    by (simp add: in_unit_interval_def class_count_error_def card_insert_if u)
qed

text \<open>
  C7. After the checks on the numbers of axes and on the sample counts have passed,
  \<open>parcheck\<close> raises a \<open>TypeError\<close> reporting the element type of \<open>y\<close> whenever that
  type is not an integer type, as for the floating-point labels \<open>[0.0, 1.0]\<close>.
\<close>

theorem label_type_check:
  assumes "in_unit_interval factor_h" and "in_unit_interval factor_k"
    and "ndim Q_arr = 2" and "ndim y_arr = 1"
    and "shape Q_arr ! 0 = shape y_arr ! 0"
    and "\<not> issubdtype_integer (dtype y_arr)"
  shows "parcheck (Converts Q_arr) (Converts y_arr) factor_h factor_k classes
         = Inl (TypeError [Lit ''Labels in y must be integers, but found type '',
                           DtypeV (dtype y_arr), Lit ''.''])"
  using assms by (simp add: parcheck_arrays check_defs)

theorem label_type_check_witness:
  "parcheck (Converts \<lparr>shape = [2, 2], dtype = Float64, items = [1, 0, 0, 1::real]\<rparr>)
     (Converts \<lparr>shape = [2], dtype = Float64, items = [0, 1::real]\<rparr>)
     (PyFloat (Finite (1/2))) (PyFloat (Finite (1/2))) None
   = Inl (TypeError [Lit ''Labels in y must be integers, but found type '',
                     DtypeV Float64, Lit ''.''])"
  using label_type_check
    [of "PyFloat (Finite (1/2))" "PyFloat (Finite (1/2))"
        "\<lparr>shape = [2, 2], dtype = Float64, items = [1, 0, 0, 1::real]\<rparr>"
        "\<lparr>shape = [2], dtype = Float64, items = [0, 1::real]\<rparr>" None]
  by (simp add: in_unit_interval_def ndim_def)

text \<open>
  C8. After the factor checks and a successful normalization, \<open>parcheck\<close> raises a
  \<open>ValueError\<close> reporting the actual number of axes whenever \<open>Q\<close> has not exactly 2 axes
  or \<open>y\<close> has not exactly 1 axis (that of \<open>Q\<close> when both are wrong), and, when both
  numbers are right, a \<open>ValueError\<close> reporting both lengths whenever the length of the
  first axis of \<open>Q\<close> differs from the length of \<open>y\<close>.
\<close>

theorem dimension_and_shape_checks:
  assumes "in_unit_interval factor_h" and "in_unit_interval factor_k"
  shows "(ndim Q_arr \<noteq> 2 \<longrightarrow>
            parcheck (Converts Q_arr) (Converts y_arr) factor_h factor_k classes
            = Inl (ValueError [Lit ''Q must be a 2D array, but has '', NumV (ndim Q_arr),
                               Lit '' dimensions.'']))
    \<and> (ndim Q_arr = 2 \<and> ndim y_arr \<noteq> 1 \<longrightarrow>
            parcheck (Converts Q_arr) (Converts y_arr) factor_h factor_k classes
            = Inl (ValueError [Lit ''y must be a 1D array, but has '', NumV (ndim y_arr),
                               Lit '' dimensions.'']))
    \<and> (ndim Q_arr = 2 \<and> ndim y_arr = 1 \<and> shape Q_arr ! 0 \<noteq> shape y_arr ! 0 \<longrightarrow>
            parcheck (Converts Q_arr) (Converts y_arr) factor_h factor_k classes
            = Inl (ValueError [Lit ''The number of samples in Q ('', NumV (shape Q_arr ! 0),
                               Lit '') does not match the number of labels in y ('',
                               NumV (shape y_arr ! 0), Lit '').'']))"
  using assms by (simp add: parcheck_arrays check_defs)

text \<open>The examples of the specification: \<open>Q = [1, 2, 3]\<close>, a list of one axis; a \<open>y\<close>
  of two axes; \<open>Q\<close> of shape \<open>(5, 3)\<close> with a \<open>y\<close> of length 4.\<close>

theorem dimension_and_shape_checks_witness:
  "parcheck (Converts \<lparr>shape = [3], dtype = Float64, items = [1, 2, 3::real]\<rparr>)
     (Converts \<lparr>shape = [3], dtype = Int64, items = [0, 1, 2::int]\<rparr>)
     (PyFloat (Finite (1/2))) (PyFloat (Finite (1/2))) None
   = Inl (ValueError [Lit ''Q must be a 2D array, but has '', NumV 1, Lit '' dimensions.''])
   \<and> parcheck (Converts \<lparr>shape = [2, 2], dtype = Float64, items = [1, 0, 0, 1::real]\<rparr>)
     (Converts \<lparr>shape = [2, 1], dtype = Int64, items = [0, 1::int]\<rparr>)
     (PyFloat (Finite (1/2))) (PyFloat (Finite (1/2))) None
   = Inl (ValueError [Lit ''y must be a 1D array, but has '', NumV 2, Lit '' dimensions.''])
   \<and> parcheck (Converts \<lparr>shape = [5, 3], dtype = Float64, items = replicate 15 (0::real)\<rparr>)
     (Converts \<lparr>shape = [4], dtype = Int64, items = [0, 1, 2, 1::int]\<rparr>)
     (PyFloat (Finite (1/2))) (PyFloat (Finite (1/2))) None
   = Inl (ValueError [Lit ''The number of samples in Q ('', NumV 5,
                      Lit '') does not match the number of labels in y ('',
                      NumV 4, Lit '').''])"
proof -
  have h: "in_unit_interval (PyFloat (Finite (1/2)))"
    by (simp add: in_unit_interval_def)
  have 1: "parcheck (Converts \<lparr>shape = [3], dtype = Float64, items = [1, 2, 3::real]\<rparr>)
     (Converts \<lparr>shape = [3], dtype = Int64, items = [0, 1, 2::int]\<rparr>)
     (PyFloat (Finite (1/2))) (PyFloat (Finite (1/2))) None
   = Inl (ValueError [Lit ''Q must be a 2D array, but has '', NumV 1, Lit '' dimensions.''])"
    using dimension_and_shape_checks [OF h h,
        of "\<lparr>shape = [3], dtype = Float64, items = [1, 2, 3::real]\<rparr>"
           "\<lparr>shape = [3], dtype = Int64, items = [0, 1, 2::int]\<rparr>" None]
    by (simp add: ndim_def)
  have 2: "parcheck (Converts \<lparr>shape = [2, 2], dtype = Float64, items = [1, 0, 0, 1::real]\<rparr>)
     (Converts \<lparr>shape = [2, 1], dtype = Int64, items = [0, 1::int]\<rparr>)
     (PyFloat (Finite (1/2))) (PyFloat (Finite (1/2))) None
   = Inl (ValueError [Lit ''y must be a 1D array, but has '', NumV 2, Lit '' dimensions.''])"
    using dimension_and_shape_checks [OF h h,
        of "\<lparr>shape = [2, 2], dtype = Float64, items = [1, 0, 0, 1::real]\<rparr>"
           "\<lparr>shape = [2, 1], dtype = Int64, items = [0, 1::int]\<rparr>" None]
    by (simp add: ndim_def)
  have 3: "parcheck (Converts \<lparr>shape = [5, 3], dtype = Float64, items = replicate 15 (0::real)\<rparr>)
     (Converts \<lparr>shape = [4], dtype = Int64, items = [0, 1, 2, 1::int]\<rparr>)
     (PyFloat (Finite (1/2))) (PyFloat (Finite (1/2))) None
   = Inl (ValueError [Lit ''The number of samples in Q ('', NumV 5,
                      Lit '') does not match the number of labels in y ('',
                      NumV 4, Lit '').''])"
    using dimension_and_shape_checks [OF h h,
        of "\<lparr>shape = [5, 3], dtype = Float64, items = replicate 15 (0::real)\<rparr>"
           "\<lparr>shape = [4], dtype = Int64, items = [0, 1, 2, 1::int]\<rparr>" None]
    by (simp add: ndim_def)
  show ?thesis by (intro conjI 1 2 3)
qed

text \<open>
  C9. Boolean scaling factors are accepted: a \<open>bool\<close> is an instance of \<open>int\<close> and its
  value, 0 or 1, lies in [0.0, 1.0], so it passes the type check and the range check, and
  for every well-formed \<open>(Q, y)\<close> the call with two booleans raises nothing.
\<close>

theorem bool_factors_accepted:
  "isinstance_float_int (PyBool b1) \<and> between_0_1 (PyBool b1)
   \<and> (shape Q_arr = [M, N] \<and> shape y_arr = [M] \<and> issubdtype_integer (dtype y_arr)
       \<and> N = card (set (items y_arr))
      \<longrightarrow> parcheck (Converts Q_arr) (Converts y_arr) (PyBool b1) (PyBool b2) None = Inr ())"
  by (simp add: isinstance_float_int_def between_0_1_def parcheck_arrays
        in_unit_interval_def check_defs ndim_def get_classes_None)

theorem bool_factors_accepted_witness:
  "parcheck (Converts \<lparr>shape = [4, 3], dtype = Float64, items = replicate 12 (0::real)\<rparr>)
     (Converts \<lparr>shape = [4], dtype = Int64, items = [0, 1, 2, 1::int]\<rparr>)
     (PyBool True) (PyBool False) None = Inr ()"
  using bool_factors_accepted
    [of True "\<lparr>shape = [4, 3], dtype = Float64, items = replicate 12 (0::real)\<rparr>" 4 3
        "\<lparr>shape = [4], dtype = Int64, items = [0, 1, 2, 1::int]\<rparr>" False]
  by (simp add: card_insert_if)

text \<open>
  C10. Without an explicit class set \<open>get_classes\<close> returns the distinct values of \<open>y\<close>
  in ascending order, so the labels returned depend on the multiset of the values of
  \<open>y\<close> only, not on the order in which they appear.
\<close>

theorem unique_labels_sorted:
  assumes "mset (items y') = mset (items y_arr)"
  shows "\<exists>labels labels' n.
           get_classes y_arr None = Inr (labels, n)
         \<and> sorted_wrt (<) (items labels)
         \<and> set (items labels) = set (items y_arr)
         \<and> n = length (items labels)
         \<and> get_classes y' None = Inr (labels', n)
         \<and> items labels' = items labels"
proof -
  have "sort (items y') = sort (items y_arr)"
    using assms by (simp add: properties_for_sort)
  moreover have "set (items y') = set (items y_arr)"
    using assms by (rule mset_eq_setD)
  ultimately show ?thesis
    by (simp add: get_classes_None np_unique_def Let_def sorted_remdups_adj_strict
          length_unique)
qed

theorem unique_labels_sorted_witness:
  "mset [0, 0, 1, 2::int] = mset [2, 0, 1, 0]
   \<and> get_classes \<lparr>shape = [4], dtype = Int64, items = [2, 0, 1, 0::int]\<rparr> None
      = Inr (\<lparr>shape = [3], dtype = Int64, items = [0, 1, 2]\<rparr>, 3)
   \<and> get_classes \<lparr>shape = [4], dtype = Int64, items = [0, 0, 1, 2::int]\<rparr> None
      = Inr (\<lparr>shape = [3], dtype = Int64, items = [0, 1, 2]\<rparr>, 3)"
proof -
  have m: "mset (items \<lparr>shape = [4], dtype = Int64, items = [0, 0, 1, 2::int]\<rparr>)
           = mset (items \<lparr>shape = [4], dtype = Int64, items = [2, 0, 1, 0::int]\<rparr>)"
    by simp
  have u: "fst (np_unique \<lparr>shape = [4], dtype = Int64, items = [2, 0, 1, 0::int]\<rparr>)
           = \<lparr>shape = [3], dtype = Int64, items = [0, 1, 2]\<rparr>"
    by (simp add: np_unique_def Let_def)
  have u': "fst (np_unique \<lparr>shape = [4], dtype = Int64, items = [0, 0, 1, 2::int]\<rparr>)
            = \<lparr>shape = [3], dtype = Int64, items = [0, 1, 2]\<rparr>"
    by (simp add: np_unique_def Let_def)
  show ?thesis
    using unique_labels_sorted [OF m] u u' by (simp add: get_classes_None card_insert_if)
qed

end
